theory Spec2Isabelle
  imports Complex_Main "HOL-Library.List_Lexorder" "HOL-Library.Char_ord" "HOL-Library.Multiset"
begin

section \<open>The execution panel of nemo-web\<close>

text \<open>
  A model of \<^verbatim>\<open>src/components/rightPanel/executionPanel/ExecutionPanel.tsx\<close>.
  The component keeps its data in React state hooks and one mutable ref
  (\<^verbatim>\<open>workerRef\<close>); its handlers are plain and \<^verbatim>\<open>async\<close> functions.  The state hooks
  and the ref become the fields of one record; a handler becomes a function from
  the record to the updated record.  An \<^verbatim>\<open>async\<close> function is cut at its \<^verbatim>\<open>await\<close>
  points: the part up to the first \<^verbatim>\<open>await\<close> runs when the handler is called, and
  each later part runs when the awaited promise settles.  The JavaScript event
  loop is the list of events that the environment (user and worker) delivers.

  A handler is taken to run against the state of the latest render, that is, the
  current values of the hooks.  Strings are lists of \<^typ>\<open>char\<close>, compared
  lexicographically character by character, as JavaScript compares code units.
\<close>

subsection \<open>Data\<close>

text \<open>A browser \<^verbatim>\<open>File\<close>: the panel reads its name and its size only.\<close>

record js_file =
  file_name :: string
  file_size :: nat

text \<open>
  One element of \<^verbatim>\<open>inputs\<close>.  The declared type has both properties, but the
  object spread \<^verbatim>\<open>{...inputs[inputIndex], resource: v}\<close> of a missing element
  yields an object without \<^verbatim>\<open>file\<close>, and \<^verbatim>\<open>runProgram\<close> tests
  \<^verbatim>\<open>input[1] !== undefined\<close>; so either property may be absent (\<open>None\<close>).
\<close>

record input_binding =
  resource :: "string option"
  file' :: "js_file option"

text \<open>
  A JavaScript array slot: an empty slot (a hole, left by an assignment beyond
  the end), the value \<^verbatim>\<open>undefined\<close>, or an element.
\<close>

datatype 'a slot = Hole | Undefined | Item 'a

datatype TracingFormat = NONE | ASCII | EVONNE

record NemoProgramInfo =
  edbPredicates :: "string list"
  outputPredicates :: "string list"
  parsingDuration :: real

text \<open>
  \<^verbatim>\<open>FactCounts\<close>: a dictionary from predicate name to row count and the aggregate
  count.  The dictionary is taken without inherited keys, so \<^verbatim>\<open>predicate in d\<close>
  is membership in its domain.
\<close>

record FactCounts =
  countsOfOutputPredicates :: "string \<rightharpoonup> nat"
  factsOfDerivedPredicates :: nat

text \<open>What \<^verbatim>\<open>worker.start\<close> resolves to.\<close>

record start_info =
  info_initializationDuration :: real
  info_reasoningDuration :: real

text \<open>The calls the panel makes on a \<^verbatim>\<open>NemoWorker\<close>, in the order of the source.\<close>

datatype request =
  ParseProgram string
| MarkDefaultExports
| Start "string \<rightharpoonup> js_file"
| GetCounts
| ParseAndTraceFactAscii string
| ParseAndTraceFactGraphML string

text \<open>
  Where an invocation of \<^verbatim>\<open>runProgram\<close> is suspended: at one of its five
  \<^verbatim>\<open>await\<close>s (the last four hold the local constant \<^verbatim>\<open>worker\<close>), or finished.
\<close>

datatype run_pc =
  AwaitCreate
| AwaitParse nat
| AwaitMark nat
| AwaitStart nat
| AwaitCounts nat
| Finished

text \<open>
  A suspended invocation of \<^verbatim>\<open>runProgram\<close>, with the values its closure holds:
  \<^verbatim>\<open>programText\<close> and \<^verbatim>\<open>inputs\<close> of the render in which it was called.
\<close>

record pipeline =
  pc :: run_pc
  run_text :: string
  run_inputs :: "input_binding slot list"

text \<open>A suspended invocation of \<^verbatim>\<open>traceFactAscii\<close> or \<^verbatim>\<open>traceFactEvonne\<close>.\<close>

datatype trace_pc = AwaitTrace TracingFormat | TraceFinished

text \<open>
  How an awaited promise settles: it rejects (or the call throws) with an error
  whose \<^verbatim>\<open>toString()\<close> is the string, or it resolves with a value.
\<close>

datatype outcome =
  Thrown string
| GotWorker
| GotInfo NemoProgramInfo
| GotUnit
| GotStart start_info
| GotCounts FactCounts
| GotTrace string

text \<open>
  The state hooks and the ref of \<^verbatim>\<open>ExecutionPanel\<close> (first block), and the
  bookkeeping of the environment (second block): the suspended invocations, the
  number of workers \<^verbatim>\<open>createNemoWorker\<close> has handed out (a worker is named by its
  number), the workers on which \<^verbatim>\<open>stop()\<close> was called, and every request made,
  with the worker it was made on.
\<close>

record panel =
  inputs :: "input_binding slot list"
  activeKey :: string
  workerRef :: "nat option"
  programInfo :: "NemoProgramInfo option"
  parseError :: "string option"
  initializationDuration :: real
  reasoningDuration :: real
  factCounts :: "FactCounts option"
  isProgramRunning :: bool
  isWorkerActive :: bool
  tracingFactText :: string
  tracingResult :: "string option"
  tracingFormat :: TracingFormat
  isTracingModalShown :: bool
  pipelines :: "pipeline list"
  traces :: "trace_pc list"
  created :: nat
  stopped :: "nat list"
  requests :: "(nat \<times> request) list"

text \<open>The first render: the initial values of the hooks, nothing suspended.\<close>

definition initial :: panel where
  "initial =
     \<lparr>inputs = [], activeKey = ''info'', workerRef = None, programInfo = None,
      parseError = None, initializationDuration = 0, reasoningDuration = 0,
      factCounts = None, isProgramRunning = False, isWorkerActive = False,
      tracingFactText = [], tracingResult = None, tracingFormat = NONE,
      isTracingModalShown = False, pipelines = [], traces = [], created = 0,
      stopped = [], requests = []\<rparr>"

subsection \<open>The input list\<close>

text \<open>\<^verbatim>\<open>[...xs]\<close>: the iterator reads a hole as \<^verbatim>\<open>undefined\<close>.\<close>

fun spread_slot :: "'a slot \<Rightarrow> 'a slot" where
  "spread_slot Hole = Undefined"
| "spread_slot Undefined = Undefined"
| "spread_slot (Item x) = Item x"

definition spread :: "'a slot list \<Rightarrow> 'a slot list" where
  "spread xs = map spread_slot xs"

text \<open>\<^verbatim>\<open>xs[i]\<close>: a hole, \<^verbatim>\<open>undefined\<close> and an index beyond the end all read as \<^verbatim>\<open>undefined\<close>.\<close>

definition array_get :: "'a slot list \<Rightarrow> nat \<Rightarrow> 'a option" where
  "array_get xs i =
     (if i < length xs then (case xs ! i of Item x \<Rightarrow> Some x | _ \<Rightarrow> None) else None)"

text \<open>
  \<^verbatim>\<open>xs[i] = v\<close>: inside the array the slot is overwritten; beyond the end the array
  grows to length \<open>i + 1\<close> and the slots in between are holes.  Nothing is thrown.
\<close>

definition array_set :: "'a slot list \<Rightarrow> nat \<Rightarrow> 'a \<Rightarrow> 'a slot list" where
  "array_set xs i v =
     (if i < length xs then xs[i := Item v]
      else xs @ replicate (i - length xs) Hole @ [Item v])"

text \<open>\<^verbatim>\<open>{...b}\<close> of an element, or of \<^verbatim>\<open>undefined\<close>, which spreads to the empty object.\<close>

definition spread_binding :: "input_binding option \<Rightarrow> input_binding" where
  "spread_binding b = (case b of None \<Rightarrow> \<lparr>resource = None, file' = None\<rparr> | Some x \<Rightarrow> x)"

text \<open>
  The \<^verbatim>\<open>onChange\<close> handler of the resource field of row \<open>inputIndex\<close> (lines 208 to 215);
  the result is what it passes to \<^verbatim>\<open>setInputs\<close>.
\<close>

definition changeResource :: "input_binding slot list \<Rightarrow> nat \<Rightarrow> string \<Rightarrow> input_binding slot list" where
  "changeResource ins inputIndex v =
     array_set (spread ins) inputIndex
       ((spread_binding (array_get ins inputIndex))\<lparr>resource := Some v\<rparr>)"

text \<open>
  The callback given to \<^verbatim>\<open>chooseFile\<close> by the file button of row \<open>inputIndex\<close>
  (lines 225 to 236): an empty selection changes nothing.
\<close>

definition changeFile :: "input_binding slot list \<Rightarrow> nat \<Rightarrow> js_file list \<Rightarrow> input_binding slot list" where
  "changeFile ins inputIndex fileList =
     (case fileList of
        [] \<Rightarrow> ins
      | f # _ \<Rightarrow>
          array_set (spread ins) inputIndex
            ((spread_binding (array_get ins inputIndex))\<lparr>file' := Some f\<rparr>))"

text \<open>The remove button (lines 244 to 248): \<^verbatim>\<open>splice(inputIndex, 1)\<close> on a copy.\<close>

definition removeInput :: "input_binding slot list \<Rightarrow> nat \<Rightarrow> input_binding slot list" where
  "removeInput ins inputIndex = take inputIndex (spread ins) @ drop (Suc inputIndex) (spread ins)"

text \<open>The \<^verbatim>\<open>Add local file\<close> button (lines 258 to 271).\<close>

definition addFile :: "input_binding slot list \<Rightarrow> js_file list \<Rightarrow> input_binding slot list" where
  "addFile ins fileList =
     (case fileList of
        [] \<Rightarrow> ins
      | f # _ \<Rightarrow> ins @ [Item \<lparr>resource = Some (file_name f), file' = Some f\<rparr>])"

subsection \<open>The bindings handed to \<^verbatim>\<open>worker.start\<close>\<close>

text \<open>
  Lines 110 to 114:
  \<^verbatim>\<open>Object.fromEntries(inputs.map((input) => [input.resource, input.file])
        .filter((input) => input[1] !== undefined))\<close>.
  \<^verbatim>\<open>map\<close> leaves a hole a hole (\<open>None\<close> below) and its callback throws a
  \<^verbatim>\<open>TypeError\<close> on \<^verbatim>\<open>undefined\<close>; the text of that error is the engine's, here V8's.
\<close>

definition type_error :: string where
  "type_error = ''TypeError: Cannot read properties of undefined (reading 'resource')''"

fun map_entries ::
  "input_binding slot list \<Rightarrow> string + (string option \<times> js_file option) option list" where
  "map_entries [] = Inr []"
| "map_entries (Hole # xs) =
     (case map_entries xs of Inl e \<Rightarrow> Inl e | Inr ys \<Rightarrow> Inr (None # ys))"
| "map_entries (Undefined # xs) = Inl type_error"
| "map_entries (Item b # xs) =
     (case map_entries xs of Inl e \<Rightarrow> Inl e | Inr ys \<Rightarrow> Inr (Some (resource b, file' b) # ys))"

text \<open>\<^verbatim>\<open>filter\<close> skips holes and keeps the entries whose second component is defined.\<close>

fun filter_entries ::
  "(string option \<times> js_file option) option list \<Rightarrow> (string option \<times> js_file) list" where
  "filter_entries [] = []"
| "filter_entries (None # es) = filter_entries es"
| "filter_entries (Some (k, None) # es) = filter_entries es"
| "filter_entries (Some (k, Some f) # es) = (k, f) # filter_entries es"

text \<open>A property key: \<^verbatim>\<open>undefined\<close> is converted to the string \<^verbatim>\<open>"undefined"\<close>.\<close>

definition property_key :: "string option \<Rightarrow> string" where
  "property_key k = (case k of None \<Rightarrow> ''undefined'' | Some r \<Rightarrow> r)"

text \<open>\<^verbatim>\<open>Object.fromEntries\<close>: the entries are stored one after the other, from the first.\<close>

fun fromEntries_on :: "(string \<rightharpoonup> 'v) \<Rightarrow> (string option \<times> 'v) list \<Rightarrow> (string \<rightharpoonup> 'v)" where
  "fromEntries_on obj [] = obj"
| "fromEntries_on obj ((k, v) # es) = fromEntries_on (obj(property_key k \<mapsto> v)) es"

definition fromEntries :: "(string option \<times> 'v) list \<Rightarrow> (string \<rightharpoonup> 'v)" where
  "fromEntries es = fromEntries_on Map.empty es"

definition start_bindings :: "input_binding slot list \<Rightarrow> string + (string \<rightharpoonup> js_file)" where
  "start_bindings ins =
     (case map_entries ins of
        Inl e \<Rightarrow> Inl e
      | Inr es \<Rightarrow> Inr (fromEntries (filter_entries es)))"

subsection \<open>Stopping and running\<close>

text \<open>\<^verbatim>\<open>stopProgram\<close> (lines 80 to 93).\<close>

definition stopProgram :: "panel \<Rightarrow> panel" where
  "stopProgram s =
     (let s1 = s\<lparr>activeKey := ''info''\<rparr>;
          s2 = (case workerRef s1 of
                  None \<Rightarrow> s1
                | Some w \<Rightarrow> s1\<lparr>stopped := stopped s1 @ [w], workerRef := None\<rparr>)
      in s2\<lparr>programInfo := None, parseError := None, initializationDuration := 0,
            reasoningDuration := 0, factCounts := None, isProgramRunning := False\<rparr>)"

text \<open>A call of a method of worker \<open>w\<close>.\<close>

definition call :: "nat \<Rightarrow> request \<Rightarrow> panel \<Rightarrow> panel" where
  "call w r s = s\<lparr>requests := requests s @ [(w, r)]\<rparr>"

definition set_pc :: "nat \<Rightarrow> run_pc \<Rightarrow> panel \<Rightarrow> panel" where
  "set_pc p c s = s\<lparr>pipelines := (pipelines s)[p := (pipelines s ! p)\<lparr>pc := c\<rparr>]\<rparr>"

text \<open>
  \<^verbatim>\<open>runProgram\<close> up to its first \<^verbatim>\<open>await\<close> (lines 96 to 101): \<^verbatim>\<open>stopProgram()\<close>,
  \<^verbatim>\<open>setIsProgramRunning(true)\<close>, and the call of \<^verbatim>\<open>createNemoWorker\<close>, on whose
  promise the invocation is suspended.
\<close>

definition runProgram :: "string \<Rightarrow> panel \<Rightarrow> panel" where
  "runProgram programText s =
     (let s1 = stopProgram s;
          s2 = s1\<lparr>isProgramRunning := True\<rparr>
      in s2\<lparr>pipelines := pipelines s2 @
              [\<lparr>pc = AwaitCreate, run_text = programText, run_inputs = inputs s\<rparr>]\<rparr>)"

text \<open>
  The \<^verbatim>\<open>catch\<close> block and the statement after it (lines 120 to 128):
  \<^verbatim>\<open>setParseError(error.toString())\<close>, then \<^verbatim>\<open>setIsProgramRunning(false)\<close>.
\<close>

definition run_catch :: "nat \<Rightarrow> string \<Rightarrow> panel \<Rightarrow> panel" where
  "run_catch p e s = set_pc p Finished (s\<lparr>parseError := Some e, isProgramRunning := False\<rparr>)"

text \<open>
  \<^verbatim>\<open>runProgram\<close> from one \<^verbatim>\<open>await\<close> to the next (lines 101 to 128), for invocation
  \<open>p\<close> with closure values \<open>programText\<close> and \<open>ins\<close>, suspended at the given point,
  when its promise settles with the given outcome.  No part compares the local
  \<^verbatim>\<open>worker\<close> with \<^verbatim>\<open>workerRef.current\<close>.  A promise that settles with a value of
  another type than its method returns is no event of the program: the last
  equation leaves the state as it is.
\<close>

fun resume ::
  "nat \<Rightarrow> string \<Rightarrow> input_binding slot list \<Rightarrow> run_pc \<Rightarrow> outcome \<Rightarrow> panel \<Rightarrow> panel" where
  "resume p programText ins AwaitCreate GotWorker s =
     (let w = created s
      in set_pc p (AwaitParse w)
           (call w (ParseProgram programText) (s\<lparr>created := Suc w, workerRef := Some w\<rparr>)))"
| "resume p programText ins (AwaitParse w) (GotInfo i) s =
     set_pc p (AwaitMark w) (call w MarkDefaultExports (s\<lparr>programInfo := Some i\<rparr>))"
| "resume p programText ins (AwaitMark w) GotUnit s =
     (case start_bindings ins of
        Inl e \<Rightarrow> run_catch p e s
      | Inr m \<Rightarrow> set_pc p (AwaitStart w) (call w (Start m) s))"
| "resume p programText ins (AwaitStart w) (GotStart i) s =
     set_pc p (AwaitCounts w)
       (call w GetCounts
          (s\<lparr>initializationDuration := info_initializationDuration i,
             reasoningDuration := info_reasoningDuration i\<rparr>))"
| "resume p programText ins (AwaitCounts w) (GotCounts c) s =
     set_pc p Finished (s\<lparr>factCounts := Some c, isProgramRunning := False\<rparr>)"
| "resume p programText ins Finished out s = s"
| "resume p programText ins c (Thrown e) s = run_catch p e s"
| "resume p programText ins c out s = s"

definition settle_run :: "nat \<Rightarrow> outcome \<Rightarrow> panel \<Rightarrow> panel" where
  "settle_run p out s =
     (if p < length (pipelines s)
      then resume p (run_text (pipelines s ! p)) (run_inputs (pipelines s ! p))
             (pc (pipelines s ! p)) out s
      else s)"

subsection \<open>Tracing\<close>

text \<open>\<^verbatim>\<open>isTracingCurrentlyAllowed\<close> (lines 131 to 133).\<close>

definition isTracingCurrentlyAllowed :: "panel \<Rightarrow> bool" where
  "isTracingCurrentlyAllowed s = (programInfo s \<noteq> None \<and> \<not> isWorkerActive s)"

text \<open>
  \<^verbatim>\<open>traceFactAscii\<close> and \<^verbatim>\<open>traceFactEvonne\<close> up to their \<^verbatim>\<open>await\<close> (lines 136 to 142
  and 153 to 159): the guard, then the request on the worker in the ref.
\<close>

definition traceFactAscii :: "panel \<Rightarrow> panel" where
  "traceFactAscii s =
     (if \<not> isTracingCurrentlyAllowed s \<or> workerRef s = None then s
      else (case workerRef s of
              None \<Rightarrow> s
            | Some w \<Rightarrow>
                (call w (ParseAndTraceFactAscii (tracingFactText s)) s)
                  \<lparr>traces := traces s @ [AwaitTrace ASCII]\<rparr>))"

definition traceFactEvonne :: "panel \<Rightarrow> panel" where
  "traceFactEvonne s =
     (if \<not> isTracingCurrentlyAllowed s \<or> workerRef s = None then s
      else (case workerRef s of
              None \<Rightarrow> s
            | Some w \<Rightarrow>
                (call w (ParseAndTraceFactGraphML (tracingFactText s)) s)
                  \<lparr>traces := traces s @ [AwaitTrace EVONNE]\<rparr>))"

text \<open>
  The rest of both functions (lines 144 to 149 and 161 to 166): on success the
  format of the function and the result are stored, on failure \<^verbatim>\<open>NONE\<close> and the
  error's text.
\<close>

fun resume_trace :: "nat \<Rightarrow> trace_pc \<Rightarrow> outcome \<Rightarrow> panel \<Rightarrow> panel" where
  "resume_trace t (AwaitTrace fmt) (GotTrace r) s =
     s\<lparr>tracingFormat := fmt, tracingResult := Some r, traces := (traces s)[t := TraceFinished]\<rparr>"
| "resume_trace t (AwaitTrace fmt) (Thrown e) s =
     s\<lparr>tracingFormat := NONE, tracingResult := Some e, traces := (traces s)[t := TraceFinished]\<rparr>"
| "resume_trace t c out s = s"

definition settle_trace :: "nat \<Rightarrow> outcome \<Rightarrow> panel \<Rightarrow> panel" where
  "settle_trace t out s =
     (if t < length (traces s) then resume_trace t (traces s ! t) out s else s)"

subsection \<open>The event loop\<close>

text \<open>
  What the environment delivers: clicks and edits of the user, the settling of a
  promise an invocation is suspended on, and the worker's call of
  \<^verbatim>\<open>setIsWorkerActive\<close>, the callback handed to \<^verbatim>\<open>createNemoWorker\<close>.
\<close>

datatype event =
  ClickRun string
| ClickStop
| SettleRun nat outcome
| SetIsWorkerActive bool
| ClickTraceAscii
| ClickTraceEvonne
| SettleTrace nat outcome
| ChangeTracingFactText string
| ChangeResource nat string
| ChooseFile nat "js_file list"
| RemoveInput nat
| AddFile "js_file list"

fun step :: "event \<Rightarrow> panel \<Rightarrow> panel" where
  "step (ClickRun programText) s = runProgram programText s"
| "step ClickStop s = stopProgram s"
| "step (SettleRun p out) s = settle_run p out s"
| "step (SetIsWorkerActive b) s = s\<lparr>isWorkerActive := b\<rparr>"
| "step ClickTraceAscii s = traceFactAscii s"
| "step ClickTraceEvonne s = traceFactEvonne s"
| "step (SettleTrace t out) s = settle_trace t out s"
| "step (ChangeTracingFactText v) s = s\<lparr>tracingFactText := v\<rparr>"
| "step (ChangeResource i v) s = s\<lparr>inputs := changeResource (inputs s) i v\<rparr>"
| "step (ChooseFile i fs) s = s\<lparr>inputs := changeFile (inputs s) i fs\<rparr>"
| "step (RemoveInput i) s = s\<lparr>inputs := removeInput (inputs s) i\<rparr>"
| "step (AddFile fs) s = s\<lparr>inputs := addFile (inputs s) fs\<rparr>"

fun exec :: "event list \<Rightarrow> panel \<Rightarrow> panel" where
  "exec [] s = s"
| "exec (e # es) s = exec es (step e s)"

subsection \<open>Workers and phases\<close>




text \<open>
  The phase of the specification, read off the hooks: the source has no such
  variable.  \<open>Running\<close> while \<^verbatim>\<open>isProgramRunning\<close>; otherwise \<open>Failed\<close> with an error
  stored, \<open>Ready\<close> with the counts stored, and \<open>Idle\<close> with neither.
\<close>

datatype phase = Idle | Running | Ready | Failed

definition phase_of :: "panel \<Rightarrow> phase" where
  "phase_of s =
     (if isProgramRunning s then Running
      else if parseError s \<noteq> None then Failed
      else if factCounts s \<noteq> None then Ready
      else Idle)"

subsection \<open>Result tabs\<close>

text \<open>
  A row count in a template literal: its decimal digits (JavaScript prints a
  number this way below \<open>10\<^sup>2\<^sup>1\<close>).
\<close>

definition digit :: "nat \<Rightarrow> char" where
  "digit d = ''0123456789'' ! d"

function decimal :: "nat \<Rightarrow> string" where
  "decimal n = (if n < 10 then [digit n] else decimal (n div 10) @ [digit (n mod 10)])"
  by pat_completeness auto
termination
  by (relation "measure id") auto

declare decimal.simps [simp del]

text \<open>
  The properties a dictionary object inherits: \<^verbatim>\<open>predicate in d\<close> is true for an own
  key of \<open>d\<close> and also for a name that \<open>d\<close> inherits from its prototype, and
  \<^verbatim>\<open>d[predicate]\<close> is then the inherited value.  What \<^verbatim>\<open>factCounts.outputPredicates\<close>
  inherits is decided where the worker builds it, outside this component, so it
  is a parameter of the title: a map from the inherited names to the text a
  template literal prints for their values.  For an object with the prototype
  \<^verbatim>\<open>Object.prototype\<close> it is \<open>object_prototype\<close> (the texts are those of V8).
\<close>

definition native_function :: "string \<Rightarrow> string" where
  "native_function name = ''function '' @ name @ ''() { [native code] }''"

definition object_prototype :: "string \<rightharpoonup> string" where
  "object_prototype =
     map_of
       [(''constructor'', native_function ''Object''),
        (''__defineGetter__'', native_function ''__defineGetter__''),
        (''__defineSetter__'', native_function ''__defineSetter__''),
        (''hasOwnProperty'', native_function ''hasOwnProperty''),
        (''__lookupGetter__'', native_function ''__lookupGetter__''),
        (''__lookupSetter__'', native_function ''__lookupSetter__''),
        (''isPrototypeOf'', native_function ''isPrototypeOf''),
        (''propertyIsEnumerable'', native_function ''propertyIsEnumerable''),
        (''toString'', native_function ''toString''),
        (''valueOf'', native_function ''valueOf''),
        (''__proto__'', ''[object Object]''),
        (''toLocaleString'', native_function ''toLocaleString'')]"

text \<open>
  The title of the tab of a predicate (lines 371 to 376), for a dictionary that
  inherits \<open>inherited\<close>: an own entry comes before an inherited one.
\<close>

definition tabTitle :: "(string \<rightharpoonup> string) \<Rightarrow> FactCounts option \<Rightarrow> string \<Rightarrow> string" where
  "tabTitle inherited counts predicate =
     predicate @
     (case counts of
        None \<Rightarrow> []
      | Some c \<Rightarrow>
          (case countsOfOutputPredicates c predicate of
             Some n \<Rightarrow> '' ('' @ decimal n @ '')''
           | None \<Rightarrow>
               (case inherited predicate of
                  Some v \<Rightarrow> '' ('' @ v @ '')''
                | None \<Rightarrow> [])))"

text \<open>
  The tabs after \<^verbatim>\<open>Program info\<close> (line 369): \<^verbatim>\<open>outputPredicates.sort()\<close>, the default
  order of strings, and one title each.
\<close>

definition tabPredicates :: "NemoProgramInfo \<Rightarrow> string list" where
  "tabPredicates i = sort (outputPredicates i)"

definition tabTitles ::
  "(string \<rightharpoonup> string) \<Rightarrow> NemoProgramInfo \<Rightarrow> FactCounts option \<Rightarrow> string list" where
  "tabTitles inherited i counts = map (tabTitle inherited counts) (tabPredicates i)"

subsection \<open>Auxiliary notions of the proofs\<close>



text \<open>
  The events that belong to no run: neither a click on \<^verbatim>\<open>Run program\<close> or \<^verbatim>\<open>Stop\<close> nor
  the settling of a step of a run.
\<close>

fun neutral :: "event \<Rightarrow> bool" where
  "neutral (ClickRun programText) = False"
| "neutral ClickStop = False"
| "neutral (SettleRun p out) = False"
| "neutral e = True"

text \<open>
  What a run reads and writes: the session hooks, the ref, the workers handed
  out, the suspended invocations and the number of \<^verbatim>\<open>getCounts\<close> calls made.
\<close>

definition run_view ::
  "panel \<Rightarrow>
     NemoProgramInfo option \<times> string option \<times> real \<times> real \<times> FactCounts option \<times> bool \<times>
     nat option \<times> nat \<times> pipeline list \<times> nat" where
  "run_view s =
     (programInfo s, parseError s, initializationDuration s, reasoningDuration s, factCounts s,
      isProgramRunning s, workerRef s, created s, pipelines s,
      count_list (map snd (requests s)) GetCounts)"

subsection \<open>Example values\<close>

text \<open>
  The reference scenario: a program with the output predicates \<open>q\<close> and \<open>p\<close>, in
  this order, the counts 3 for \<open>p\<close> and 0 for \<open>q\<close>, and the timings 5 and 12.
\<close>

definition info_pq :: NemoProgramInfo where
  "info_pq = \<lparr>edbPredicates = [], outputPredicates = [''q'', ''p''], parsingDuration = 2\<rparr>"

definition counts_pq :: FactCounts where
  "counts_pq =
     \<lparr>countsOfOutputPredicates = [''p'' \<mapsto> 3, ''q'' \<mapsto> 0], factsOfDerivedPredicates = 3\<rparr>"

definition timings_pq :: start_info where
  "timings_pq = \<lparr>info_initializationDuration = 5, info_reasoningDuration = 12\<rparr>"

definition file_a :: js_file where
  "file_a = \<lparr>file_name = ''a.csv'', file_size = 10\<rparr>"


text \<open>A run whose \<^verbatim>\<open>parseProgram\<close> has resolved, with the worker idle and then busy.\<close>

definition parsed_idle :: panel where
  "parsed_idle =
     exec [ClickRun ''p(1).'', SettleRun 0 GotWorker, SettleRun 0 (GotInfo info_pq)] initial"

definition parsed_busy :: panel where
  "parsed_busy = step (SetIsWorkerActive True) parsed_idle"

text \<open>The same run after an ASCII trace has resolved.\<close>

definition traced :: panel where
  "traced = exec [ClickTraceAscii, SettleTrace 0 (GotTrace ''p(1) is a fact'')] parsed_idle"



text \<open>Two clicks on \<^verbatim>\<open>Run program\<close> before the first worker exists, then both workers.\<close>

definition overlapping_runs :: "event list" where
  "overlapping_runs =
     [ClickRun ''p(1).'', ClickRun ''p(1).'', SettleRun 0 GotWorker, SettleRun 1 GotWorker]"

text \<open>
  After the two overlapping runs, the first run completes, and then the second
  run gets its program info and fails when execution starts.
\<close>

definition overlapped_failure :: "event list" where
  "overlapped_failure =
     overlapping_runs @
     [SettleRun 0 (GotInfo info_pq), SettleRun 0 GotUnit, SettleRun 0 (GotStart timings_pq),
      SettleRun 0 (GotCounts counts_pq),
      SettleRun 1 (GotInfo info_pq), SettleRun 1 GotUnit, SettleRun 1 (Thrown ''ExecutionError'')]"


text \<open>
  After the two overlapping runs, a click on \<^verbatim>\<open>Stop\<close>, which stops the second
  worker, the one in the ref; then \<^verbatim>\<open>parseProgram\<close> of the first run resolves, on
  the first worker, which was never stopped.
\<close>

definition orphan_parsed :: panel where
  "orphan_parsed = exec (overlapping_runs @ [ClickStop, SettleRun 0 (GotInfo info_pq)]) initial"

section \<open>Properties\<close>

subsection \<open>Evaluation of the examples\<close>

lemmas handler_defs =
  initial_def runProgram_def stopProgram_def settle_run_def settle_trace_def set_pc_def call_def
  run_catch_def traceFactAscii_def traceFactEvonne_def isTracingCurrentlyAllowed_def Let_def

lemma parsed_idle_eq:
  "parsed_idle =
     \<lparr>inputs = [], activeKey = ''info'', workerRef = Some 0, programInfo = Some info_pq,
      parseError = None, initializationDuration = 0, reasoningDuration = 0,
      factCounts = None, isProgramRunning = True, isWorkerActive = False,
      tracingFactText = [], tracingResult = None, tracingFormat = NONE,
      isTracingModalShown = False,
      pipelines = [\<lparr>pc = AwaitMark 0, run_text = ''p(1).'', run_inputs = []\<rparr>],
      traces = [], created = 1, stopped = [],
      requests = [(0, ParseProgram ''p(1).''), (0, MarkDefaultExports)]\<rparr>"
  by (simp add: parsed_idle_def handler_defs)

lemma traced_eq:
  "traced =
     parsed_idle\<lparr>tracingFormat := ASCII, tracingResult := Some ''p(1) is a fact'',
       traces := [TraceFinished],
       requests := [(0, ParseProgram ''p(1).''), (0, MarkDefaultExports),
                    (0, ParseAndTraceFactAscii [])]\<rparr>"
  by (simp add: traced_def parsed_idle_eq handler_defs)


lemma overlapping_runs_eq:
  "exec overlapping_runs initial =
     \<lparr>inputs = [], activeKey = ''info'', workerRef = Some 1, programInfo = None,
      parseError = None, initializationDuration = 0, reasoningDuration = 0,
      factCounts = None, isProgramRunning = True, isWorkerActive = False,
      tracingFactText = [], tracingResult = None, tracingFormat = NONE,
      isTracingModalShown = False,
      pipelines = [\<lparr>pc = AwaitParse 0, run_text = ''p(1).'', run_inputs = []\<rparr>,
                   \<lparr>pc = AwaitParse 1, run_text = ''p(1).'', run_inputs = []\<rparr>],
      traces = [], created = 2, stopped = [],
      requests = [(0, ParseProgram ''p(1).''), (1, ParseProgram ''p(1).'')]\<rparr>"
  by (simp add: overlapping_runs_def handler_defs)

lemma exec_append: "exec (es @ es') s = exec es' (exec es s)"
  by (induction es arbitrary: s) simp_all

lemma orphan_parsed_fields:
  "workerRef orphan_parsed = None"
  "programInfo orphan_parsed = Some info_pq"
  "isWorkerActive orphan_parsed = False"
  "stopped orphan_parsed = [1]"
  "requests orphan_parsed =
     [(0, ParseProgram ''p(1).''), (1, ParseProgram ''p(1).''), (0, MarkDefaultExports)]"
  by (simp_all add: orphan_parsed_def exec_append overlapping_runs_eq stopProgram_def
      settle_run_def set_pc_def call_def Let_def)


subsection \<open>Stopping\<close>

text \<open>
  Claim C6.  \<^verbatim>\<open>stopProgram\<close> is idempotent: in every state, calling it twice in a
  row gives the same state as calling it once.  This holds for the whole state, so
  for the phase, \<^verbatim>\<open>programInfo\<close>, \<^verbatim>\<open>parseError\<close>, the timings, \<^verbatim>\<open>factCounts\<close> and the
  handle in \<^verbatim>\<open>workerRef\<close>, and the second call stops no worker.
\<close>

theorem stopProgram_idempotent: "stopProgram (stopProgram s) = stopProgram s"
  by (simp add: stopProgram_def Let_def split: option.splits)

subsection \<open>Tracing\<close>

lemma resume_keeps_trace_slot:
  "tracingResult (resume p t ins c out s) = tracingResult s \<and>
   tracingFormat (resume p t ins c out s) = tracingFormat s"
  by (cases c; cases out)
     (simp_all add: set_pc_def call_def run_catch_def Let_def split: sum.splits)

text \<open>
  Claim C10.  Both trace functions also require a worker in \<^verbatim>\<open>workerRef\<close>: when the
  ref holds none, then whatever \<^verbatim>\<open>programInfo\<close> and \<^verbatim>\<open>isWorkerActive\<close> are,
  \<^verbatim>\<open>traceFactAscii\<close> and \<^verbatim>\<open>traceFactEvonne\<close> return with the state as it was: no
  request is made on any worker, and the stored result and format are unchanged.
\<close>

theorem trace_requires_worker:
  "workerRef s = None \<Longrightarrow>
     traceFactAscii s = s \<and> traceFactEvonne s = s \<and>
     requests (step ClickTraceAscii s) = requests s \<and>
     requests (step ClickTraceEvonne s) = requests s"
  by (simp add: traceFactAscii_def traceFactEvonne_def)

theorem trace_requires_worker_witness:
  "workerRef orphan_parsed = None \<and> programInfo orphan_parsed \<noteq> None \<and>
   \<not> isWorkerActive orphan_parsed \<and>
   traceFactAscii orphan_parsed = orphan_parsed \<and>
   traceFactEvonne orphan_parsed = orphan_parsed \<and>
   requests (step ClickTraceAscii orphan_parsed) = requests orphan_parsed \<and>
   requests (step ClickTraceEvonne orphan_parsed) = requests orphan_parsed"
  using trace_requires_worker [of orphan_parsed]
  by (simp add: orphan_parsed_fields)

text \<open>
  Claim C3, as stated, fails: with \<^verbatim>\<open>programInfo\<close> populated and the worker not
  busy, a trace is still rejected when the ref holds no worker.  The state is the
  one reached when \<^verbatim>\<open>Run program\<close> is clicked twice before the first worker exists,
  \<^verbatim>\<open>Stop\<close> is clicked when both workers exist, and the parse of the first run
  resolves afterwards.
\<close>

theorem trace_accepted_iff_counterexample:
  "programInfo orphan_parsed \<noteq> None \<and> \<not> isWorkerActive orphan_parsed \<and>
   requests (traceFactAscii orphan_parsed) = requests orphan_parsed \<and>
   requests (traceFactEvonne orphan_parsed) = requests orphan_parsed"
  by (simp add: orphan_parsed_fields traceFactAscii_def traceFactEvonne_def)

text \<open>
  Claim C3, amended.  A trace function makes its request on the worker if and only
  if \<^verbatim>\<open>programInfo\<close> is populated, \<^verbatim>\<open>isWorkerActive\<close> is false and \<^verbatim>\<open>workerRef\<close> holds a
  worker.  In particular, called while \<^verbatim>\<open>isWorkerActive\<close> is true it returns at once
  with the state as it was: no request reaches a worker, and the stored trace
  result and format are unchanged.
\<close>

theorem trace_accepted_iff:
  "(requests (traceFactAscii s) \<noteq> requests s) =
     (programInfo s \<noteq> None \<and> \<not> isWorkerActive s \<and> workerRef s \<noteq> None) \<and>
   (requests (traceFactEvonne s) \<noteq> requests s) =
     (programInfo s \<noteq> None \<and> \<not> isWorkerActive s \<and> workerRef s \<noteq> None) \<and>
   (isWorkerActive s \<longrightarrow> traceFactAscii s = s \<and> traceFactEvonne s = s)"
  by (auto simp add: traceFactAscii_def traceFactEvonne_def isTracingCurrentlyAllowed_def
        call_def split: option.splits)

theorem trace_accepted_iff_witness:
  "isWorkerActive parsed_busy \<and>
   traceFactAscii parsed_busy = parsed_busy \<and> traceFactEvonne parsed_busy = parsed_busy \<and>
   requests (traceFactAscii parsed_idle) \<noteq> requests parsed_idle \<and>
   requests (traceFactEvonne parsed_idle) \<noteq> requests parsed_idle"
  using trace_accepted_iff [of parsed_busy] trace_accepted_iff [of parsed_idle]
  by (simp add: parsed_busy_def parsed_idle_eq)

text \<open>
  Claim C5, as stated, fails: \<^verbatim>\<open>stopProgram\<close> does not touch \<^verbatim>\<open>tracingResult\<close> or
  \<^verbatim>\<open>tracingFormat\<close>.  After a trace has resolved, a stop, and a new run after it,
  leave the result and its format in place.
\<close>

theorem trace_slot_reset_counterexample:
  "tracingFormat (step ClickStop traced) = ASCII \<and>
   tracingResult (step ClickStop traced) = Some ''p(1) is a fact'' \<and>
   tracingFormat (exec [ClickStop, ClickRun ''q(2).''] traced) = ASCII \<and>
   tracingResult (exec [ClickStop, ClickRun ''q(2).''] traced) = Some ''p(1) is a fact''"
  by (simp add: traced_eq parsed_idle_eq runProgram_def stopProgram_def Let_def)

text \<open>
  Claim C5, amended.  Stopping and running leave the stored trace result and its
  format as they are: every event other than the settling of a trace request
  (a click on \<^verbatim>\<open>Stop\<close> or \<^verbatim>\<open>Run program\<close>, every later step of a run, every edit) keeps
  both.  The slot changes only when a trace request settles.
\<close>

theorem trace_slot_kept:
  "(\<forall>t out. e \<noteq> SettleTrace t out) \<Longrightarrow>
     tracingResult (step e s) = tracingResult s \<and> tracingFormat (step e s) = tracingFormat s"
  by (cases e)
     (simp_all add: stopProgram_def runProgram_def settle_run_def resume_keeps_trace_slot
        traceFactAscii_def traceFactEvonne_def call_def Let_def split: option.splits)

theorem trace_slot_kept_witness:
  "(\<forall>t out. ClickStop \<noteq> SettleTrace t out) \<and>
   tracingResult (step ClickStop traced) = tracingResult traced \<and>
   tracingFormat (step ClickStop traced) = tracingFormat traced \<and>
   tracingResult traced = Some ''p(1) is a fact'' \<and> tracingFormat traced = ASCII"
  using trace_slot_kept [of ClickStop traced]
  by (simp add: traced_eq)

subsection \<open>A run that fails when execution starts\<close>

lemma run_until_start_fails:
  assumes b: "start_bindings (inputs s) = Inr m"
  shows "exec [ClickRun t, SettleRun (length (pipelines s)) GotWorker,
               SettleRun (length (pipelines s)) (GotInfo i),
               SettleRun (length (pipelines s)) GotUnit,
               SettleRun (length (pipelines s)) (Thrown e)] s =
         (stopProgram s)
           \<lparr>workerRef := Some (created s), programInfo := Some i, parseError := Some e,
            isProgramRunning := False,
            pipelines := pipelines s @ [\<lparr>pc = Finished, run_text = t, run_inputs = inputs s\<rparr>],
            created := Suc (created s),
            requests := requests s @
              [(created s, ParseProgram t), (created s, MarkDefaultExports),
               (created s, Start m)]\<rparr>"
proof -
  let ?p = "length (pipelines s)"
  define s0 where "s0 = stopProgram s"
  have keep: "pipelines s0 = pipelines s" "created s0 = created s" "requests s0 = requests s"
    "inputs s0 = inputs s"
    by (simp_all add: s0_def stopProgram_def Let_def split: option.splits)
  define s1 where "s1 = step (ClickRun t) s"
  have s1: "s1 = s0\<lparr>isProgramRunning := True,
      pipelines := pipelines s @ [\<lparr>pc = AwaitCreate, run_text = t, run_inputs = inputs s\<rparr>]\<rparr>"
    by (simp add: s1_def s0_def runProgram_def Let_def keep [unfolded s0_def])
  define s2 where "s2 = step (SettleRun ?p GotWorker) s1"
  have s2: "s2 = s0\<lparr>isProgramRunning := True, workerRef := Some (created s),
      created := Suc (created s),
      pipelines := pipelines s @ [\<lparr>pc = AwaitParse (created s), run_text = t, run_inputs = inputs s\<rparr>],
      requests := requests s @ [(created s, ParseProgram t)]\<rparr>"
    by (simp add: s2_def s1 settle_run_def set_pc_def call_def Let_def keep)
  define s3 where "s3 = step (SettleRun ?p (GotInfo i)) s2"
  have s3: "s3 = s0\<lparr>isProgramRunning := True, workerRef := Some (created s),
      created := Suc (created s), programInfo := Some i,
      pipelines := pipelines s @ [\<lparr>pc = AwaitMark (created s), run_text = t, run_inputs = inputs s\<rparr>],
      requests := requests s @ [(created s, ParseProgram t), (created s, MarkDefaultExports)]\<rparr>"
    by (simp add: s3_def s2 settle_run_def set_pc_def call_def keep)
  define s4 where "s4 = step (SettleRun ?p GotUnit) s3"
  have s4: "s4 = s0\<lparr>isProgramRunning := True, workerRef := Some (created s),
      created := Suc (created s), programInfo := Some i,
      pipelines := pipelines s @ [\<lparr>pc = AwaitStart (created s), run_text = t, run_inputs = inputs s\<rparr>],
      requests := requests s @ [(created s, ParseProgram t), (created s, MarkDefaultExports),
        (created s, Start m)]\<rparr>"
    by (simp add: s4_def s3 settle_run_def set_pc_def call_def keep b)
  define s5 where "s5 = step (SettleRun ?p (Thrown e)) s4"
  have s5: "s5 = s0\<lparr>workerRef := Some (created s), programInfo := Some i, parseError := Some e,
            isProgramRunning := False,
            pipelines := pipelines s @ [\<lparr>pc = Finished, run_text = t, run_inputs = inputs s\<rparr>],
            created := Suc (created s),
            requests := requests s @
              [(created s, ParseProgram t), (created s, MarkDefaultExports),
               (created s, Start m)]\<rparr>"
    by (simp add: s5_def s4 settle_run_def set_pc_def run_catch_def keep)
  show ?thesis
    using s5 by (simp add: s5_def s4_def s3_def s2_def s1_def s0_def)
qed

lemma neutral_step: "neutral e \<Longrightarrow> run_view (step e s) = run_view s"
proof (cases e)
  case (SettleTrace t out)
  have "run_view (resume_trace t c out s) = run_view s" for c
    by (cases c; cases out) (simp_all add: run_view_def)
  with SettleTrace show ?thesis by (simp add: settle_trace_def)
qed (simp_all add: run_view_def traceFactAscii_def traceFactEvonne_def call_def
      split: option.splits)

lemma neutral_exec: "list_all neutral es \<Longrightarrow> run_view (exec es s) = run_view s"
  by (induction es arbitrary: s) (simp_all add: neutral_step)

lemma run_view_fields:
  assumes "run_view s = run_view s'"
  shows "programInfo s = programInfo s'" "parseError s = parseError s'"
    "initializationDuration s = initializationDuration s'"
    "reasoningDuration s = reasoningDuration s'" "factCounts s = factCounts s'"
    "isProgramRunning s = isProgramRunning s'" "workerRef s = workerRef s'"
    "created s = created s'" "pipelines s = pipelines s'"
    "count_list (map snd (requests s)) GetCounts = count_list (map snd (requests s')) GetCounts"
  using assms by (simp_all add: run_view_def)

lemma resume_view:
  assumes v: "run_view s = run_view s'"
  shows "run_view (resume p t ins c out s) = run_view (resume p t ins c out s')"
  using run_view_fields [OF v]
  by (cases c; cases out)
     (simp_all add: run_view_def set_pc_def call_def run_catch_def Let_def split: sum.splits)

lemma settle_view:
  assumes v: "run_view s = run_view s'"
  shows "run_view (step (SettleRun p out) s) = run_view (step (SettleRun p out) s')"
  using resume_view [OF v] run_view_fields(9) [OF v] v
  by (simp add: settle_run_def)

lemma neutral_then_settle:
  assumes v: "run_view a = run_view b" and n: "list_all neutral ns"
  shows "run_view (exec (ns @ [SettleRun p out]) a) = run_view (step (SettleRun p out) b)"
proof -
  have "run_view (exec ns a) = run_view b"
    using neutral_exec [OF n, of a] v by simp
  then have "run_view (step (SettleRun p out) (exec ns a)) = run_view (step (SettleRun p out) b)"
    by (rule settle_view)
  then show ?thesis by (simp add: exec_append)
qed

lemma undisturbed_view:
  assumes n: "list_all neutral (n1 @ n2 @ n3 @ n4)"
  shows "run_view
      (exec (ClickRun t # n1 @ SettleRun p GotWorker # n2 @ SettleRun p (GotInfo i) # n3 @
             SettleRun p GotUnit # n4 @ [SettleRun p (Thrown e)]) s) =
    run_view
      (exec [ClickRun t, SettleRun p GotWorker, SettleRun p (GotInfo i), SettleRun p GotUnit,
             SettleRun p (Thrown e)] s)"
proof -
  from n have n1: "list_all neutral n1" and n2: "list_all neutral n2"
    and n3: "list_all neutral n3" and n4: "list_all neutral n4"
    by simp_all
  let ?s1 = "step (ClickRun t) s"
  let ?s2 = "step (SettleRun p GotWorker) ?s1"
  let ?s3 = "step (SettleRun p (GotInfo i)) ?s2"
  let ?s4 = "step (SettleRun p GotUnit) ?s3"
  let ?s5 = "step (SettleRun p (Thrown e)) ?s4"
  let ?a2 = "exec (n1 @ [SettleRun p GotWorker]) ?s1"
  let ?a3 = "exec (n2 @ [SettleRun p (GotInfo i)]) ?a2"
  let ?a4 = "exec (n3 @ [SettleRun p GotUnit]) ?a3"
  let ?a5 = "exec (n4 @ [SettleRun p (Thrown e)]) ?a4"
  have v2: "run_view ?a2 = run_view ?s2"
    using refl n1 by (rule neutral_then_settle)
  have v3: "run_view ?a3 = run_view ?s3"
    using v2 n2 by (rule neutral_then_settle)
  have v4: "run_view ?a4 = run_view ?s4"
    using v3 n3 by (rule neutral_then_settle)
  have v5: "run_view ?a5 = run_view ?s5"
    using v4 n4 by (rule neutral_then_settle)
  have "exec (ClickRun t # n1 @ SettleRun p GotWorker # n2 @ SettleRun p (GotInfo i) # n3 @
             SettleRun p GotUnit # n4 @ [SettleRun p (Thrown e)]) s = ?a5"
    using exec_append [of "n1 @ [SettleRun p GotWorker]"
        "(n2 @ [SettleRun p (GotInfo i)]) @ (n3 @ [SettleRun p GotUnit]) @
         (n4 @ [SettleRun p (Thrown e)])" ?s1]
      exec_append [of "n2 @ [SettleRun p (GotInfo i)]"
        "(n3 @ [SettleRun p GotUnit]) @ (n4 @ [SettleRun p (Thrown e)])" ?a2]
      exec_append [of "n3 @ [SettleRun p GotUnit]" "n4 @ [SettleRun p (Thrown e)]" ?a3]
    by simp
  with v5 show ?thesis by simp
qed

lemma overlapped_failure_eq:
  "exec overlapped_failure initial =
     \<lparr>inputs = [], activeKey = ''info'', workerRef = Some 1, programInfo = Some info_pq,
      parseError = Some ''ExecutionError'', initializationDuration = 5, reasoningDuration = 12,
      factCounts = Some counts_pq, isProgramRunning = False, isWorkerActive = False,
      tracingFactText = [], tracingResult = None, tracingFormat = NONE,
      isTracingModalShown = False,
      pipelines = [\<lparr>pc = Finished, run_text = ''p(1).'', run_inputs = []\<rparr>,
                   \<lparr>pc = Finished, run_text = ''p(1).'', run_inputs = []\<rparr>],
      traces = [], created = 2, stopped = [],
      requests = [(0, ParseProgram ''p(1).''), (1, ParseProgram ''p(1).''),
                  (0, MarkDefaultExports), (0, Start Map.empty), (0, GetCounts),
                  (1, MarkDefaultExports), (1, Start Map.empty)]\<rparr>"
  by (simp add: overlapped_failure_def exec_append overlapping_runs_eq settle_run_def set_pc_def
      call_def run_catch_def start_bindings_def fromEntries_def timings_pq_def)

text \<open>
  Claim C4, as stated, fails when another run is in flight.  After two clicks on
  \<^verbatim>\<open>Run program\<close> before the first worker exists, no worker is ever stopped; the
  first run completes and writes the timings and \<^verbatim>\<open>factCounts\<close>, and when the second
  run then fails at its start step, both are still set.
\<close>

theorem run_fails_at_start_counterexample:
  "pc (pipelines (exec overlapped_failure initial) ! 1) = Finished \<and>
   stopped (exec overlapped_failure initial) = [] \<and>
   parseError (exec overlapped_failure initial) = Some ''ExecutionError'' \<and>
   phase_of (exec overlapped_failure initial) = Failed \<and>
   programInfo (exec overlapped_failure initial) = Some info_pq \<and>
   factCounts (exec overlapped_failure initial) = Some counts_pq \<and>
   initializationDuration (exec overlapped_failure initial) = 5 \<and>
   reasoningDuration (exec overlapped_failure initial) = 12"
  by (simp add: overlapped_failure_eq phase_of_def)

text \<open>
  Claim C4, amended.  Take any state, click \<^verbatim>\<open>Run program\<close>, and let the new
  invocation get its worker, the program info \<open>i\<close> and the end of
  \<^verbatim>\<open>markDefaultExports\<close>; let \<^verbatim>\<open>worker.start\<close> then fail with the text \<open>e\<close>; and let
  every event in between belong to no run (no click on \<^verbatim>\<open>Run program\<close> or \<^verbatim>\<open>Stop\<close> and
  no settling of a step of another run).  Afterwards \<^verbatim>\<open>programInfo\<close> holds \<open>i\<close>,
  \<^verbatim>\<open>factCounts\<close> is unset and both timings are zero, \<^verbatim>\<open>parseError\<close> holds \<open>e\<close>, the run
  is over and the phase is \<open>Failed\<close>; and no \<^verbatim>\<open>getCounts\<close> call has been made.
\<close>

theorem undisturbed_run_fails_at_start:
  "start_bindings (inputs s) = Inr m \<Longrightarrow> list_all neutral (n1 @ n2 @ n3 @ n4) \<Longrightarrow>
   (let p = length (pipelines s);
        s' = exec (ClickRun t # n1 @ SettleRun p GotWorker # n2 @ SettleRun p (GotInfo i) # n3 @
                   SettleRun p GotUnit # n4 @ [SettleRun p (Thrown e)]) s
    in programInfo s' = Some i \<and> factCounts s' = None \<and>
       initializationDuration s' = 0 \<and> reasoningDuration s' = 0 \<and>
       parseError s' = Some e \<and> \<not> isProgramRunning s' \<and> phase_of s' = Failed \<and>
       pc (pipelines s' ! p) = Finished \<and>
       count_list (map snd (requests s')) GetCounts =
         count_list (map snd (requests s)) GetCounts)"
proof -
  assume b: "start_bindings (inputs s) = Inr m"
    and n: "list_all neutral (n1 @ n2 @ n3 @ n4)"
  let ?p = "length (pipelines s)"
  define s' where
    "s' = exec (ClickRun t # n1 @ SettleRun ?p GotWorker # n2 @ SettleRun ?p (GotInfo i) # n3 @
                SettleRun ?p GotUnit # n4 @ [SettleRun ?p (Thrown e)]) s"
  define u where
    "u = (stopProgram s)
           \<lparr>workerRef := Some (created s), programInfo := Some i, parseError := Some e,
            isProgramRunning := False,
            pipelines := pipelines s @ [\<lparr>pc = Finished, run_text = t, run_inputs = inputs s\<rparr>],
            created := Suc (created s),
            requests := requests s @
              [(created s, ParseProgram t), (created s, MarkDefaultExports),
               (created s, Start m)]\<rparr>"
  have v: "run_view s' = run_view u"
    unfolding s'_def u_def
    using undisturbed_view [OF n, of t ?p i e s] run_until_start_fails [OF b, of t i e]
    by (simp only:)
  have u: "programInfo u = Some i" "factCounts u = None" "initializationDuration u = 0"
    "reasoningDuration u = 0" "parseError u = Some e" "\<not> isProgramRunning u"
    "pc (pipelines u ! ?p) = Finished"
    "count_list (map snd (requests u)) GetCounts = count_list (map snd (requests s)) GetCounts"
    by (simp_all add: u_def stopProgram_def Let_def split: option.splits)
  have s': "programInfo s' = Some i" "factCounts s' = None" "initializationDuration s' = 0"
    "reasoningDuration s' = 0" "parseError s' = Some e" "\<not> isProgramRunning s'"
    "pc (pipelines s' ! ?p) = Finished"
    "count_list (map snd (requests s')) GetCounts = count_list (map snd (requests s)) GetCounts"
    using run_view_fields [OF v] u by simp_all
  then have "phase_of s' = Failed"
    by (simp add: phase_of_def)
  with s' show ?thesis
    unfolding Let_def s'_def [symmetric] by simp
qed

theorem undisturbed_run_fails_at_start_witness:
  "start_bindings (inputs (step (AddFile [file_a]) initial)) = Inr [''a.csv'' \<mapsto> file_a] \<and>
   list_all neutral
     ([SetIsWorkerActive True] @ [ChangeResource 0 ''b.csv''] @ [] @ [SetIsWorkerActive False]) \<and>
   programInfo
     (exec [ClickRun ''p(1).'', SetIsWorkerActive True, SettleRun 0 GotWorker,
            ChangeResource 0 ''b.csv'', SettleRun 0 (GotInfo info_pq), SettleRun 0 GotUnit,
            SetIsWorkerActive False, SettleRun 0 (Thrown ''ExecutionError'')]
        (step (AddFile [file_a]) initial)) = Some info_pq \<and>
   factCounts
     (exec [ClickRun ''p(1).'', SetIsWorkerActive True, SettleRun 0 GotWorker,
            ChangeResource 0 ''b.csv'', SettleRun 0 (GotInfo info_pq), SettleRun 0 GotUnit,
            SetIsWorkerActive False, SettleRun 0 (Thrown ''ExecutionError'')]
        (step (AddFile [file_a]) initial)) = None \<and>
   reasoningDuration
     (exec [ClickRun ''p(1).'', SetIsWorkerActive True, SettleRun 0 GotWorker,
            ChangeResource 0 ''b.csv'', SettleRun 0 (GotInfo info_pq), SettleRun 0 GotUnit,
            SetIsWorkerActive False, SettleRun 0 (Thrown ''ExecutionError'')]
        (step (AddFile [file_a]) initial)) = 0 \<and>
   parseError
     (exec [ClickRun ''p(1).'', SetIsWorkerActive True, SettleRun 0 GotWorker,
            ChangeResource 0 ''b.csv'', SettleRun 0 (GotInfo info_pq), SettleRun 0 GotUnit,
            SetIsWorkerActive False, SettleRun 0 (Thrown ''ExecutionError'')]
        (step (AddFile [file_a]) initial)) = Some ''ExecutionError'' \<and>
   phase_of
     (exec [ClickRun ''p(1).'', SetIsWorkerActive True, SettleRun 0 GotWorker,
            ChangeResource 0 ''b.csv'', SettleRun 0 (GotInfo info_pq), SettleRun 0 GotUnit,
            SetIsWorkerActive False, SettleRun 0 (Thrown ''ExecutionError'')]
        (step (AddFile [file_a]) initial)) = Failed"
proof -
  let ?s = "step (AddFile [file_a]) initial"
  have b: "start_bindings (inputs ?s) = Inr [''a.csv'' \<mapsto> file_a]"
    by (simp add: initial_def addFile_def start_bindings_def fromEntries_def property_key_def
        file_a_def)
  have n: "list_all neutral
     ([SetIsWorkerActive True] @ [ChangeResource 0 ''b.csv''] @ [] @ [SetIsWorkerActive False])"
    by simp
  have l: "length (pipelines ?s) = 0"
    by (simp add: initial_def)
  have a: "ClickRun ''p(1).'' # [SetIsWorkerActive True] @ SettleRun 0 GotWorker #
      [ChangeResource 0 ''b.csv''] @ SettleRun 0 (GotInfo info_pq) # [] @ SettleRun 0 GotUnit #
      [SetIsWorkerActive False] @ [SettleRun 0 (Thrown ''ExecutionError'')] =
     [ClickRun ''p(1).'', SetIsWorkerActive True, SettleRun 0 GotWorker,
      ChangeResource 0 ''b.csv'', SettleRun 0 (GotInfo info_pq), SettleRun 0 GotUnit,
      SetIsWorkerActive False, SettleRun 0 (Thrown ''ExecutionError'')]"
    by simp
  from undisturbed_run_fails_at_start [OF b n, of "''p(1).''" info_pq "''ExecutionError''"]
  show ?thesis
    unfolding l Let_def a using b n by blast
qed

subsection \<open>The bindings of a run\<close>










subsection \<open>Result tabs\<close>

text \<open>
  A name that the dictionary inherits and has no entry for gets the text of the
  inherited value, as the \<^verbatim>\<open>in\<close> test of line 374 is true for it.
\<close>

lemma tab_title_inherited:
  "tabTitle object_prototype
     (Some \<lparr>countsOfOutputPredicates = Map.empty, factsOfDerivedPredicates = 0\<rparr>) ''toString'' =
   ''toString (function toString() { [native code] })''"
  by (simp add: tabTitle_def object_prototype_def native_function_def)

text \<open>
  Claim C8, as stated, fails in its second half: with \<^verbatim>\<open>factCounts\<close> present, the
  title of a predicate that has no entry in its dictionary is not the name
  followed by a count; for the predicate \<open>p\<close> it is the bare name.
\<close>

theorem tab_title_counterexample:
  "tabTitles object_prototype
     \<lparr>edbPredicates = [], outputPredicates = [''p''], parsingDuration = 0\<rparr>
     (Some \<lparr>countsOfOutputPredicates = Map.empty, factsOfDerivedPredicates = 0\<rparr>) = [''p'']"
  by (simp add: tabTitles_def tabPredicates_def tabTitle_def object_prototype_def)

text \<open>
  Claim C8, amended.  The tabs are the output predicates in lexicographic order,
  whatever order the names arrive in: the list is sorted, it has the same
  elements with the same multiplicities, and two arrivals of the same names give
  the same tabs.  The title of a predicate is the bare name when \<^verbatim>\<open>factCounts\<close> is
  absent; it is the name followed by the count in parentheses when \<^verbatim>\<open>factCounts\<close>
  is present with an entry for the predicate; and it is the bare name when
  \<^verbatim>\<open>factCounts\<close> is present without an entry for the predicate and the name is not
  one that the dictionary inherits.  This holds whatever the dictionary inherits.
\<close>

theorem tabs_sorted_and_labelled:
  "sorted (tabPredicates i) \<and> mset (tabPredicates i) = mset (outputPredicates i) \<and>
   (mset (outputPredicates i) = mset (outputPredicates j) \<longrightarrow>
      tabPredicates i = tabPredicates j) \<and>
   tabTitles inherited i counts = map (tabTitle inherited counts) (tabPredicates i) \<and>
   tabTitle inherited None predicate = predicate \<and>
   (countsOfOutputPredicates c predicate = Some n \<longrightarrow>
      tabTitle inherited (Some c) predicate = predicate @ '' ('' @ decimal n @ '')'') \<and>
   (countsOfOutputPredicates c predicate = None \<and> inherited predicate = None \<longrightarrow>
      tabTitle inherited (Some c) predicate = predicate)"
proof -
  have "tabPredicates i = tabPredicates j"
    if "mset (outputPredicates i) = mset (outputPredicates j)"
    using that properties_for_sort [of "sort (outputPredicates i)" "outputPredicates j"]
    by (simp add: tabPredicates_def)
  then show ?thesis
    by (simp add: tabPredicates_def tabTitles_def tabTitle_def)
qed

theorem tabs_sorted_and_labelled_witness:
  "mset (outputPredicates info_pq) = mset [''p'', ''q''] \<and>
   tabPredicates info_pq = [''p'', ''q''] \<and>
   tabTitles object_prototype info_pq None = [''p'', ''q''] \<and>
   countsOfOutputPredicates counts_pq ''p'' = Some 3 \<and>
   tabTitle object_prototype (Some counts_pq) ''p'' = ''p (3)'' \<and>
   tabTitles object_prototype info_pq (Some counts_pq) = [''p (3)'', ''q (0)''] \<and>
   countsOfOutputPredicates counts_pq ''r'' = None \<and> object_prototype ''r'' = None \<and>
   tabTitle object_prototype (Some counts_pq) ''r'' = ''r''"
proof -
  have c: "countsOfOutputPredicates counts_pq ''p'' = Some 3"
    "countsOfOutputPredicates counts_pq ''q'' = Some 0"
    "countsOfOutputPredicates counts_pq ''r'' = None"
    by (simp_all add: counts_pq_def)
  have r: "object_prototype ''r'' = None"
    by (simp add: object_prototype_def)
  have m: "mset (outputPredicates info_pq) = mset [''p'', ''q'']"
    by (simp add: info_pq_def)
  have d: "decimal 3 = ''3''" "decimal 0 = ''0''"
    by (simp_all add: decimal.simps digit_def)
  note p = tabs_sorted_and_labelled [of info_pq
      "\<lparr>edbPredicates = [], outputPredicates = [''p'', ''q''], parsingDuration = 0\<rparr>"
      object_prototype "Some counts_pq" "''p''" counts_pq 3]
  note q = tabs_sorted_and_labelled [of info_pq info_pq object_prototype None "''q''" counts_pq 0]
  note n = tabs_sorted_and_labelled [of info_pq info_pq object_prototype None "''r''" counts_pq 0]
  have tabs: "tabPredicates info_pq = [''p'', ''q'']"
    using p m by (simp add: tabPredicates_def)
  have tp: "tabTitle object_prototype (Some counts_pq) ''p'' = ''p (3)''"
    using p c(1) d(1) by simp
  have tq: "tabTitle object_prototype (Some counts_pq) ''q'' = ''q (0)''"
    using q c(2) d(2) by simp
  have tr: "tabTitle object_prototype (Some counts_pq) ''r'' = ''r''"
    using n c(3) r by simp
  have none: "tabTitles object_prototype info_pq None = [''p'', ''q'']"
    using q n tabs by (simp add: tabTitles_def tabTitle_def)
  have some: "tabTitles object_prototype info_pq (Some counts_pq) = [''p (3)'', ''q (0)'']"
    using p tabs tp tq by simp
  from m tabs none c(1) tp some c(3) r tr show ?thesis by blast
qed

subsection \<open>Stopping a run in flight\<close>




subsection \<open>Workers owned and workers alive\<close>





























end
